theory Spec2Isabelle
  imports Main "HOL-Library.Word"
begin

section \<open>The calculator client (src/client/calculator.ts)\<close>

text \<open>
  The client keeps one unsigned 32-bit number in an account of a ledger. It encodes
  operation requests with a fixed buffer layout, decodes the account's bytes with a
  Borsh schema, creates the account when it is absent and submits the operations as
  transactions. JavaScript numbers are modelled as \<open>int\<close> (the client is given
  integers), bytes as \<open>8 word\<close>, buffers as lists of bytes, and every exception the
  code can raise as a value of type \<open>error\<close>.
\<close>

subsection \<open>Errors\<close>

datatype borsh_reason =
    ReachedEndOfBuffer     \<comment> \<open>"Reached the end of buffer when deserializing"\<close>
  | UnexpectedBytes nat    \<comment> \<open>"Unexpected n bytes after deserialized data"\<close>

datatype error =
    TypeError              \<comment> \<open>the runtime's: a call of a non-function, a property of undefined\<close>
  | RangeError             \<comment> \<open>Buffer: a value or an offset out of range\<close>
  | BorshError borsh_reason
  | Error string           \<comment> \<open>\<open>throw new Error(msg)\<close>\<close>
  | Thrown string          \<comment> \<open>\<open>throw msg\<close>, a bare string\<close>
  | FailedToReadProgramKeypair string error
      \<comment> \<open>\<open>new Error("Failed to read program keypair at '<path>' due to error: <cause>.")\<close>\<close>

subsection \<open>Buffers\<close>

type_synonym u8 = "8 word"
type_synonym buffer = "u8 list"

text \<open>\<open>Buffer.alloc(n)\<close>: n zero bytes.\<close>

definition alloc :: "nat \<Rightarrow> buffer" where
  "alloc n = replicate n 0"

text \<open>
  \<open>buf.writeUIntLE(value, offset, byteLength)\<close>: the value is checked against
  \<open>[0, 2^(8*byteLength) - 1]\<close> and the offset against the buffer, then the bytes are
  stored lowest first, each store keeping the low 8 bits.
\<close>

fun writeBytesLE :: "int \<Rightarrow> nat \<Rightarrow> nat \<Rightarrow> buffer \<Rightarrow> buffer" where
  "writeBytesLE v off 0 buf = buf"
| "writeBytesLE v off (Suc n) buf =
     writeBytesLE (v div 256) (Suc off) n (buf[off := word_of_int v])"

definition writeUIntLE :: "buffer \<Rightarrow> int \<Rightarrow> nat \<Rightarrow> nat \<Rightarrow> error + buffer" where
  "writeUIntLE buf v off byteLength =
     (if v < 0 \<or> 2 ^ (8 * byteLength) - 1 < v then Inl RangeError
      else if length buf < off + byteLength then Inl RangeError
      else Inr (writeBytesLE v off byteLength buf))"

text \<open>\<open>buf.readUIntLE(offset, byteLength)\<close>, with its bounds check.\<close>

fun readBytesLE :: "buffer \<Rightarrow> nat \<Rightarrow> nat \<Rightarrow> int" where
  "readBytesLE buf off 0 = 0"
| "readBytesLE buf off (Suc n) = uint (buf ! off) + 256 * readBytesLE buf (Suc off) n"

definition readUIntLE :: "buffer \<Rightarrow> nat \<Rightarrow> nat \<Rightarrow> error + int" where
  "readUIntLE buf off byteLength =
     (if length buf < off + byteLength then Inl RangeError
      else Inr (readBytesLE buf off byteLength))"

text \<open>
  For stating the layouts: the \<open>n\<close> little-endian bytes of a value, lowest first, and
  the value of a list of little-endian bytes.
\<close>

fun le_bytes :: "int \<Rightarrow> nat \<Rightarrow> buffer" where
  "le_bytes v 0 = []"
| "le_bytes v (Suc n) = word_of_int v # le_bytes (v div 256) n"

fun le_value :: "buffer \<Rightarrow> int" where
  "le_value [] = 0"
| "le_value (b # bs) = uint b + 256 * le_value bs"

subsection \<open>The request layout (@solana/buffer-layout)\<close>

text \<open>
  A layout field is an unsigned little-endian integer of a span in bytes, stored under a
  property name; \<open>BufferLayout.struct\<close> lays its fields out one after the other.
\<close>

datatype Layout = UInt nat string

fun span :: "Layout \<Rightarrow> nat" where
  "span (UInt n p) = n"

fun property :: "Layout \<Rightarrow> string" where
  "property (UInt n p) = p"

definition BufferLayout_u8 :: "string \<Rightarrow> Layout" where
  "BufferLayout_u8 p = UInt 1 p"

definition BufferLayout_u32 :: "string \<Rightarrow> Layout" where
  "BufferLayout_u32 p = UInt 4 p"

definition struct_span :: "Layout list \<Rightarrow> nat" where
  "struct_span fds = sum_list (map span fds)"

text \<open>
  \<open>Structure.encode(src, b, offset)\<close>: each field whose property is defined in \<open>src\<close>
  is written at the running offset; a field without a value is skipped, its bytes left
  as they are. The source object is an association list of its properties.
\<close>

fun struct_encode :: "Layout list \<Rightarrow> (string \<times> int) list \<Rightarrow> buffer \<Rightarrow> nat \<Rightarrow> error + buffer" where
  "struct_encode [] src b offset = Inr b"
| "struct_encode (fd # fds) src b offset =
     (case map_of src (property fd) of
        None \<Rightarrow> struct_encode fds src b (offset + span fd)
      | Some fv \<Rightarrow>
          (case writeUIntLE b fv offset (span fd) of
             Inl e \<Rightarrow> Inl e
           | Inr b' \<Rightarrow> struct_encode fds src b' (offset + span fd)))"

text \<open>\<open>Structure.decode(b, offset)\<close>: the object with one property per field.\<close>

fun struct_decode :: "Layout list \<Rightarrow> buffer \<Rightarrow> nat \<Rightarrow> error + (string \<times> int) list" where
  "struct_decode [] b offset = Inr []"
| "struct_decode (fd # fds) b offset =
     (case readUIntLE b offset (span fd) of
        Inl e \<Rightarrow> Inl e
      | Inr fv \<Rightarrow>
          (case struct_decode fds b (offset + span fd) of
             Inl e \<Rightarrow> Inl e
           | Inr dest \<Rightarrow> Inr ((property fd, fv) # dest)))"

text \<open>The layout declared inside \<open>createInstruction\<close>.\<close>

definition layout :: "Layout list" where
  "layout = [BufferLayout_u8 ''instruction'', BufferLayout_u32 ''num1'', BufferLayout_u32 ''num2'']"

text \<open>
  \<open>createInstruction(operation, num1, num2)\<close>: a buffer of the layout's span, filled by
  the layout's encoder; the instruction byte is 0 for "add" and 1 for anything else.
\<close>

definition createInstruction :: "string \<Rightarrow> int \<Rightarrow> int \<Rightarrow> error + buffer" where
  "createInstruction operation num1 num2 =
     (let data = alloc (struct_span layout)
      in struct_encode layout
           [(''instruction'', if operation = ''add'' then 0 else 1),
            (''num1'', num1), (''num2'', num2)]
           data 0)"

text \<open>
  Modelled from the spec: the decoder of requests is the on-chain program, which is not
  among the client's sources. The spec asks for a "decodeRequest-equivalent" that gives
  back the opcode, operand1 and operand2 of the 9-byte request layout; it is taken to be
  the decoder of the same layout object, followed by the closed opcode table
  \<open>{Add \<rightarrow> 0, Sub \<rightarrow> 1}\<close> read backwards.
\<close>

definition decodeRequest :: "buffer \<Rightarrow> error + (string \<times> int \<times> int)" where
  "decodeRequest b =
     (if length b \<noteq> struct_span layout then Inl RangeError
      else case struct_decode layout b 0 of
        Inl e \<Rightarrow> Inl e
      | Inr dest \<Rightarrow>
          (case (map_of dest ''instruction'', map_of dest ''num1'', map_of dest ''num2'') of
             (Some opc, Some a, Some b) \<Rightarrow>
               if opc = 0 then Inr (''add'', a, b)
               else if opc = 1 then Inr (''sub'', a, b)
               else Inl RangeError
           | _ \<Rightarrow> Inl RangeError))"

subsection \<open>The state schema (borsh)\<close>

text \<open>
  The class \<open>Calculator\<close>: one numeric field, 0 unless the constructor is given a
  fields object. Objects handed to and built by the library are association lists of
  their properties; the fields object is declared \<open>{ result: number }\<close>, and a list
  without that property (which the schema below never builds) reads as 0.
\<close>

record Calculator =
  result :: int

definition new_Calculator :: "(string \<times> int) list option \<Rightarrow> Calculator" where
  "new_Calculator flds =
     (case flds of
        None \<Rightarrow> \<lparr>result = 0\<rparr>
      | Some fs \<Rightarrow> \<lparr>result = (case map_of fs ''result'' of Some r \<Rightarrow> r | None \<Rightarrow> 0)\<rparr>)"

definition Calculator_properties :: "Calculator \<Rightarrow> (string \<times> int) list" where
  "Calculator_properties c = [(''result'', result c)]"

text \<open>The field types of a Borsh struct schema that the client uses.\<close>

datatype FieldType = U8 | U16 | U32

fun byteLength :: "FieldType \<Rightarrow> nat" where
  "byteLength U8 = 1"
| "byteLength U16 = 2"
| "byteLength U32 = 4"

text \<open>\<open>CalculatorSchema\<close>: \<open>{ kind: "struct", fields: [["result", "u32"]] }\<close>.\<close>

definition CalculatorSchema :: "(string \<times> FieldType) list" where
  "CalculatorSchema = [(''result'', U32)]"

text \<open>
  \<open>borsh.serialize\<close>: a writer that grows as needed; each field of the schema appends
  its little-endian bytes. A property the object lacks is \<open>undefined\<close>, which the
  buffer refuses with a TypeError; a value out of the field's range is a RangeError.
\<close>

definition writeField :: "buffer \<Rightarrow> FieldType \<Rightarrow> int \<Rightarrow> error + buffer" where
  "writeField buf t v = writeUIntLE (buf @ alloc (byteLength t)) v (length buf) (byteLength t)"

fun serializeStruct :: "(string \<times> FieldType) list \<Rightarrow> (string \<times> int) list \<Rightarrow> buffer \<Rightarrow> error + buffer" where
  "serializeStruct [] obj w = Inr w"
| "serializeStruct ((fieldName, fieldType) # fs) obj w =
     (case map_of obj fieldName of
        None \<Rightarrow> Inl TypeError
      | Some v \<Rightarrow>
          (case writeField w fieldType v of
             Inl e \<Rightarrow> Inl e
           | Inr w' \<Rightarrow> serializeStruct fs obj w'))"

definition serialize :: "(string \<times> FieldType) list \<Rightarrow> Calculator \<Rightarrow> error + buffer" where
  "serialize schema obj = serializeStruct schema (Calculator_properties obj) []"

text \<open>
  \<open>borsh.deserialize\<close>: a reader with an offset; a read past the end of the buffer is
  a BorshError, and so are bytes left over after the last field.
\<close>

definition readField :: "buffer \<Rightarrow> nat \<Rightarrow> FieldType \<Rightarrow> error + (int \<times> nat)" where
  "readField buf offset t =
     (case readUIntLE buf offset (byteLength t) of
        Inl e \<Rightarrow> Inl (BorshError ReachedEndOfBuffer)
      | Inr v \<Rightarrow> Inr (v, offset + byteLength t))"

fun deserializeStruct :: "(string \<times> FieldType) list \<Rightarrow> buffer \<Rightarrow> nat \<Rightarrow> error + ((string \<times> int) list \<times> nat)" where
  "deserializeStruct [] buf offset = Inr ([], offset)"
| "deserializeStruct ((fieldName, fieldType) # fs) buf offset =
     (case readField buf offset fieldType of
        Inl e \<Rightarrow> Inl e
      | Inr (v, offset') \<Rightarrow>
          (case deserializeStruct fs buf offset' of
             Inl e \<Rightarrow> Inl e
           | Inr (flds, offset'') \<Rightarrow> Inr ((fieldName, v) # flds, offset'')))"

definition deserialize :: "(string \<times> FieldType) list \<Rightarrow> buffer \<Rightarrow> error + Calculator" where
  "deserialize schema buf =
     (case deserializeStruct schema buf 0 of
        Inl e \<Rightarrow> Inl e
      | Inr (flds, offset) \<Rightarrow>
          if offset < length buf then Inl (BorshError (UnexpectedBytes (length buf - offset)))
          else Inr (new_Calculator (Some flds)))"

text \<open>
  \<open>CALCULATOR_SIZE\<close>: the length of the serialized \<open>new Calculator()\<close>. Were the
  serialization to throw, the module would not load; \<open>serialize_new_Calculator\<close> below
  shows that it does not.
\<close>

definition CALCULATOR_SIZE :: nat where
  "CALCULATOR_SIZE =
     (case serialize CalculatorSchema (new_Calculator None) of
        Inl e \<Rightarrow> 0
      | Inr bytes \<Rightarrow> length bytes)"

subsection \<open>Keys, accounts and transactions\<close>

datatype PublicKey = PublicKey buffer

record Keypair =
  publicKey :: PublicKey
  secretKey :: buffer

record AccountInfo =
  executable :: bool
  owner :: PublicKey
  lamports :: int
  data :: buffer

text \<open>
  The values that can reach the \<open>data\<close> of an instruction: a buffer from
  \<open>createInstruction\<close>, or what a function inherited by the dispatch table returns.
\<close>

datatype jsvalue =
    Buffer buffer
  | JSBoolean bool
  | JSString string
  | NumberObject int       \<comment> \<open>\<open>Object(n)\<close>, the wrapper object of a number\<close>

text \<open>
  An instruction is either the system program's \<open>createAccountWithSeed\<close> with its
  parameters (fromPubkey, basePubkey, seed, newAccountPubkey, lamports, space, programId)
  or a \<open>TransactionInstruction\<close> of keys (pubkey, isSigner, isWritable), program and
  data, as the constructor is given them. A transaction is the list of its instructions.
\<close>

datatype Instruction =
    CreateAccountWithSeed PublicKey PublicKey string PublicKey int nat PublicKey
  | TransactionInstruction "(PublicKey \<times> bool \<times> bool) list" "PublicKey option" jsvalue

type_synonym Transaction = "Instruction list"

subsection \<open>The cluster and the file system\<close>

text \<open>
  What the client calls and does not implement, over a state \<open>'w\<close> of the cluster:
  the RPC methods of \<open>Connection\<close>, \<open>sendAndConfirmTransaction\<close>,
  \<open>PublicKey.createWithSeed\<close>, the helpers of \<open>./utils\<close> and the file system.
  Every call can fail; the calls that can change the cluster return its new state. A
  module variable that the source only passes on arrives as it is, undefined or not.
\<close>

record 'w env =
  PROGRAM_PATH :: string
  getRpcUrl :: "error + string"
  getVersion :: "'w \<Rightarrow> error + string"
  getRecentBlockhash :: "'w \<Rightarrow> error + int"
  getMinimumBalanceForRentExemption :: "'w \<Rightarrow> nat \<Rightarrow> error + int"
  getPayer :: "error + Keypair"
  getBalance :: "'w \<Rightarrow> PublicKey \<Rightarrow> error + int"
  requestAirdrop :: "'w \<Rightarrow> PublicKey \<Rightarrow> int \<Rightarrow> (error + string) \<times> 'w"
  confirmTransaction :: "'w \<Rightarrow> string \<Rightarrow> (error + unit) \<times> 'w"
  createKeypairFromFile :: "string \<Rightarrow> error + Keypair"
  existsSync :: "string \<Rightarrow> bool"
  getAccountInfo :: "'w \<Rightarrow> PublicKey option \<Rightarrow> error + AccountInfo option"
  createWithSeed :: "PublicKey \<Rightarrow> string \<Rightarrow> PublicKey \<Rightarrow> error + PublicKey"
  sendAndConfirmTransaction ::
    "'w \<Rightarrow> string option \<Rightarrow> Transaction \<Rightarrow> Keypair option list \<Rightarrow> (error + string) \<times> 'w"

definition PROGRAM_SO_PATH :: "'w env \<Rightarrow> string" where
  "PROGRAM_SO_PATH env = PROGRAM_PATH env @ ''/helloworld.so''"

definition PROGRAM_KEYPAIR_PATH :: "'w env \<Rightarrow> string" where
  "PROGRAM_KEYPAIR_PATH env = PROGRAM_PATH env @ ''/helloworld-keypair.json''"

definition LAMPORTS_PER_SOL :: int where
  "LAMPORTS_PER_SOL = 1000000000"

definition CALCULATOR_SEED :: string where
  "CALCULATOR_SEED = ''IamTheCalculator''"

subsection \<open>The module's state\<close>

text \<open>
  The four module variables (undefined until assigned), the cluster, the transactions
  handed to \<open>sendAndConfirmTransaction\<close> so far, and the lines written to the console.
  A function that throws leaves the state as it was at the throw.
\<close>

datatype logline =
    LogConnection string                 \<comment> \<open>Connection to cluster established: version\<close>
  | LogUsingAccount PublicKey int        \<comment> \<open>Using account pk containing n SOL to pay for fees\<close>
  | LogUsingProgram PublicKey            \<comment> \<open>Using program pk\<close>
  | LogCreating PublicKey                \<comment> \<open>Creating account pk to say hello to\<close>
  | LogSending PublicKey                 \<comment> \<open>Sending calculate request to pk\<close>
  | LogResult int string int int         \<comment> \<open>num1 operationType num2 = result\<close>

record 'w state =
  connection :: "string option"
  payer :: "Keypair option"
  programId :: "PublicKey option"
  calculatorPubKey :: "PublicKey option"
  world :: 'w
  submitted :: "Transaction list"
  console :: "logline list"

type_synonym ('w, 'a) prog = "'w state \<Rightarrow> (error + 'a) \<times> 'w state"

definition returnP :: "'a \<Rightarrow> ('w, 'a) prog" where
  "returnP a s = (Inr a, s)"

definition throw :: "error \<Rightarrow> ('w, 'a) prog" where
  "throw e s = (Inl e, s)"

definition bindP :: "('w, 'a) prog \<Rightarrow> ('a \<Rightarrow> ('w, 'b) prog) \<Rightarrow> ('w, 'b) prog" where
  "bindP m f s = (case m s of (Inl e, s') \<Rightarrow> (Inl e, s') | (Inr a, s') \<Rightarrow> f a s')"

text \<open>A pure call that can throw.\<close>

definition liftE :: "error + 'a \<Rightarrow> ('w, 'a) prog" where
  "liftE r s = (r, s)"

text \<open>An awaited call that reads the cluster, and one that can change it.\<close>

definition query :: "('w \<Rightarrow> error + 'a) \<Rightarrow> ('w, 'a) prog" where
  "query f s = (f (world s), s)"

definition request :: "('w \<Rightarrow> (error + 'a) \<times> 'w) \<Rightarrow> ('w, 'a) prog" where
  "request f s = (case f (world s) of (r, w') \<Rightarrow> (r, s\<lparr>world := w'\<rparr>))"

text \<open>Reading a property of a module variable: a TypeError when it is undefined.\<close>

definition defined :: "('w state \<Rightarrow> 'a option) \<Rightarrow> ('w, 'a) prog" where
  "defined var s = (case var s of None \<Rightarrow> (Inl TypeError, s) | Some v \<Rightarrow> (Inr v, s))"

definition modify :: "('w state \<Rightarrow> 'w state) \<Rightarrow> ('w, unit) prog" where
  "modify f s = (Inr (), f s)"

definition console_log :: "logline \<Rightarrow> ('w, unit) prog" where
  "console_log l = modify (\<lambda>s. s\<lparr>console := console s @ [l]\<rparr>)"

text \<open>
  The call \<open>sendAndConfirmTransaction(connection, transaction, signers)\<close>: the
  transaction is recorded as submitted, then the cluster answers.
\<close>

definition sendAndConfirm :: "'w env \<Rightarrow> Transaction \<Rightarrow> ('w, string) prog" where
  "sendAndConfirm env transaction s =
     (let s' = s\<lparr>submitted := submitted s @ [transaction]\<rparr>
      in request (\<lambda>w. sendAndConfirmTransaction env w (connection s') transaction [payer s']) s')"

subsection \<open>establishConnection and establishPayer\<close>

definition establishConnection :: "'w env \<Rightarrow> ('w, unit) prog" where
  "establishConnection env =
     bindP (liftE (getRpcUrl env)) (\<lambda>rpcUrl.
     bindP (modify (\<lambda>s. s\<lparr>connection := Some rpcUrl\<rparr>)) (\<lambda>_.
     bindP (query (getVersion env)) (\<lambda>version.
     console_log (LogConnection version))))"

text \<open>
  The fees are computed only while \<open>payer\<close> is still undefined: the rent of an account
  of \<open>CALCULATOR_SIZE\<close> bytes plus a hundred signatures.
\<close>

definition computeFees :: "'w env \<Rightarrow> ('w, int) prog" where
  "computeFees env s =
     (case payer s of
        Some p \<Rightarrow> returnP 0 s
      | None \<Rightarrow>
          bindP (defined connection) (\<lambda>_.
          bindP (query (getRecentBlockhash env)) (\<lambda>lamportsPerSignature.
          bindP (query (\<lambda>w. getMinimumBalanceForRentExemption env w CALCULATOR_SIZE)) (\<lambda>rent.
          bindP (liftE (getPayer env)) (\<lambda>p.
          bindP (modify (\<lambda>s. s\<lparr>payer := Some p\<rparr>)) (\<lambda>_.
          returnP (0 + rent + lamportsPerSignature * 100)))))) s)"

text \<open>
  The balance is read; below the fees, the difference is requested as an airdrop, the
  airdrop's signature is awaited and the balance read again. Nothing looks at the second
  reading: the line logged afterwards prints the constant \<open>2 * LAMPORTS_PER_SOL\<close>.
\<close>

definition establishPayer :: "'w env \<Rightarrow> ('w, unit) prog" where
  "establishPayer env =
     bindP (computeFees env) (\<lambda>fees.
     bindP (defined connection) (\<lambda>_.
     bindP (defined payer) (\<lambda>p.
     bindP (query (\<lambda>w. getBalance env w (publicKey p))) (\<lambda>balance.
     bindP (if balance < fees
            then bindP (request (\<lambda>w. requestAirdrop env w (publicKey p) (fees - balance))) (\<lambda>sig.
                 bindP (request (\<lambda>w. confirmTransaction env w sig)) (\<lambda>_.
                 query (\<lambda>w. getBalance env w (publicKey p))))
            else returnP balance) (\<lambda>balance'.
     console_log (LogUsingAccount (publicKey p) (2 * LAMPORTS_PER_SOL)))))))"

subsection \<open>checkProgram\<close>

text \<open>
  The program's key is read from its keypair file, the program must be deployed and
  executable, the calculator's address is derived from the payer, the seed and the
  program, and the account is created when the cluster has none at that address.
\<close>

definition readProgramId :: "'w env \<Rightarrow> ('w, PublicKey) prog" where
  "readProgramId env s =
     (case createKeypairFromFile env (PROGRAM_KEYPAIR_PATH env) of
        Inl err \<Rightarrow> (Inl (FailedToReadProgramKeypair (PROGRAM_KEYPAIR_PATH env) err), s)
      | Inr programKeypair \<Rightarrow>
          (Inr (publicKey programKeypair), s\<lparr>programId := Some (publicKey programKeypair)\<rparr>))"

definition checkDeployed :: "'w env \<Rightarrow> AccountInfo option \<Rightarrow> ('w, unit) prog" where
  "checkDeployed env programInfo =
     (case programInfo of
        None \<Rightarrow>
          if existsSync env (PROGRAM_SO_PATH env)
          then throw (Error ''Program needs to be deployed with `solana program deploy dist/program/solana_calculator.so`'')
          else throw (Error ''Program needs to be built and deployed'')
      | Some info \<Rightarrow>
          if \<not> executable info then throw (Error ''Program is not executable'')
          else returnP ())"

definition createCalculatorAccount :: "'w env \<Rightarrow> Keypair \<Rightarrow> PublicKey \<Rightarrow> PublicKey \<Rightarrow> ('w, unit) prog" where
  "createCalculatorAccount env p pid address =
     bindP (console_log (LogCreating address)) (\<lambda>_.
     bindP (query (\<lambda>w. getMinimumBalanceForRentExemption env w CALCULATOR_SIZE)) (\<lambda>rent.
     bindP (sendAndConfirm env
              [CreateAccountWithSeed (publicKey p) (publicKey p) CALCULATOR_SEED address
                 rent CALCULATOR_SIZE pid]) (\<lambda>_.
     returnP ())))"

definition checkProgram :: "'w env \<Rightarrow> ('w, unit) prog" where
  "checkProgram env =
     bindP (readProgramId env) (\<lambda>pid.
     bindP (defined connection) (\<lambda>_.
     bindP (query (\<lambda>w. getAccountInfo env w (Some pid))) (\<lambda>programInfo.
     bindP (checkDeployed env programInfo) (\<lambda>_.
     bindP (console_log (LogUsingProgram pid)) (\<lambda>_.
     bindP (defined payer) (\<lambda>p.
     bindP (liftE (createWithSeed env (publicKey p) CALCULATOR_SEED pid)) (\<lambda>address.
     bindP (modify (\<lambda>s. s\<lparr>calculatorPubKey := Some address\<rparr>)) (\<lambda>_.
     bindP (query (\<lambda>w. getAccountInfo env w (Some address))) (\<lambda>calculatorAccount.
     case calculatorAccount of
       None \<Rightarrow> createCalculatorAccount env p pid address
     | Some account \<Rightarrow> returnP ())))))))))"

subsection \<open>The dispatch table and calculate\<close>

text \<open>
  \<open>instructionMap\<close> is an object literal with the keys "add" and "sub". Reading any
  other key goes on to \<open>Object.prototype\<close>: most names are undefined there, but the
  names of its own members are not. Called as plain functions of two numbers (so with
  \<open>this\<close> undefined), \<open>constructor\<close> wraps its first argument, \<open>toString\<close> answers
  "[object Undefined]", \<open>isPrototypeOf\<close> answers false for a number, and the other
  methods throw a TypeError when they convert \<open>this\<close> to an object; \<open>__proto__\<close> is
  the prototype itself, an object that is not callable.
\<close>

datatype jsproperty =
    Undefined
  | Function "int \<Rightarrow> int \<Rightarrow> error + jsvalue"
  | Object

definition Object_prototype :: "string \<Rightarrow> jsproperty" where
  "Object_prototype key =
     (if key = ''constructor'' then Function (\<lambda>a b. Inr (NumberObject a))
      else if key = ''toString'' then Function (\<lambda>a b. Inr (JSString ''[object Undefined]''))
      else if key = ''isPrototypeOf'' then Function (\<lambda>a b. Inr (JSBoolean False))
      else if key \<in> set [''hasOwnProperty'', ''propertyIsEnumerable'', ''valueOf'',
                          ''toLocaleString'', ''__defineGetter__'', ''__defineSetter__'',
                          ''__lookupGetter__'', ''__lookupSetter__'']
           then Function (\<lambda>a b. Inl TypeError)
      else if key = ''__proto__'' then Object
      else Undefined)"

definition instructionMap :: "string \<Rightarrow> jsproperty" where
  "instructionMap key =
     (if key = ''add''
        then Function (\<lambda>num1 num2. map_sum id Buffer (createInstruction ''add'' num1 num2))
      else if key = ''sub''
        then Function (\<lambda>num1 num2. map_sum id Buffer (createInstruction ''sub'' num1 num2))
      else Object_prototype key)"

text \<open>Calling what was read from the table: only a function can be called.\<close>

fun call :: "jsproperty \<Rightarrow> int \<Rightarrow> int \<Rightarrow> error + jsvalue" where
  "call (Function f) num1 num2 = f num1 num2"
| "call Undefined num1 num2 = Inl TypeError"
| "call Object num1 num2 = Inl TypeError"

definition calculate :: "'w env \<Rightarrow> string \<Rightarrow> int \<Rightarrow> int \<Rightarrow> ('w, unit) prog" where
  "calculate env operation num1 num2 =
     bindP (defined calculatorPubKey) (\<lambda>address.
     bindP (console_log (LogSending address)) (\<lambda>_.
     let instructionHandler = instructionMap operation in
     bindP (liftE (call instructionHandler num1 num2)) (\<lambda>payload.
     bindP (\<lambda>s. returnP (TransactionInstruction [(address, False, True)] (programId s) payload) s)
       (\<lambda>instruction.
     bindP (sendAndConfirm env [instruction]) (\<lambda>_.
     returnP ())))))"

subsection \<open>displayResult\<close>

definition displayResult :: "'w env \<Rightarrow> string \<Rightarrow> int \<Rightarrow> int \<Rightarrow> ('w, unit) prog" where
  "displayResult env operation num1 num2 =
     bindP (defined connection) (\<lambda>_.
     bindP (\<lambda>s. query (\<lambda>w. getAccountInfo env w (calculatorPubKey s)) s) (\<lambda>accountInfo.
     case accountInfo of
       None \<Rightarrow> throw (Thrown ''Error: cannot find the calculator account'')
     | Some info \<Rightarrow>
         bindP (liftE (deserialize CalculatorSchema (data info))) (\<lambda>calculator.
         let operationType = (if operation = ''add'' then ''+'' else ''-'') in
         console_log (LogResult num1 operationType num2 (result calculator)))))"

subsection \<open>A small cluster to run the client on\<close>

text \<open>
  The accounts are an association list by address. An airdrop credits the key, the
  system program creates a zero-filled account of the requested space unless the address
  is taken, and an instruction to the calculator program is accepted as it is (the
  program itself is not part of the client). Addresses are derived by concatenation,
  standing in for the hash.
\<close>

type_synonym cluster = "(PublicKey \<times> AccountInfo) list"

fun bytes :: "PublicKey \<Rightarrow> buffer" where
  "bytes (PublicKey b) = b"

definition systemProgram :: PublicKey where
  "systemProgram = PublicKey [0]"

definition credit :: "cluster \<Rightarrow> PublicKey \<Rightarrow> int \<Rightarrow> cluster" where
  "credit w k n =
     (case map_of w k of
        None \<Rightarrow> (k, \<lparr>executable = False, owner = systemProgram, lamports = n, data = []\<rparr>) # w
      | Some a \<Rightarrow> (k, a\<lparr>lamports := lamports a + n\<rparr>) # w)"

fun execute :: "cluster \<Rightarrow> Transaction \<Rightarrow> error + cluster" where
  "execute w [] = Inr w"
| "execute w (CreateAccountWithSeed fromKey baseKey seed newKey n space pid # is) =
     (case map_of w newKey of
        Some a \<Rightarrow> Inl (Error ''account already in use'')
      | None \<Rightarrow>
          execute ((newKey, \<lparr>executable = False, owner = pid, lamports = n, data = alloc space\<rparr>) # w) is)"
| "execute w (TransactionInstruction keys pid payload # is) = execute w is"

definition localCluster :: "cluster env" where
  "localCluster =
     \<lparr>PROGRAM_PATH = ''dist/program'',
      getRpcUrl = Inr ''http://127.0.0.1:8899'',
      getVersion = (\<lambda>w. Inr ''1.18''),
      getRecentBlockhash = (\<lambda>w. Inr 5000),
      getMinimumBalanceForRentExemption = (\<lambda>w n. Inr ((128 + int n) * 6960)),
      getPayer = Inr \<lparr>publicKey = PublicKey [1], secretKey = [1]\<rparr>,
      getBalance = (\<lambda>w k. case map_of w k of None \<Rightarrow> Inr 0 | Some a \<Rightarrow> Inr (lamports a)),
      requestAirdrop = (\<lambda>w k n. (Inr ''airdrop'', credit w k n)),
      confirmTransaction = (\<lambda>w sig. (Inr (), w)),
      createKeypairFromFile = (\<lambda>path. Inr \<lparr>publicKey = PublicKey [2], secretKey = [2]\<rparr>),
      existsSync = (\<lambda>path. True),
      getAccountInfo = (\<lambda>w k. case k of None \<Rightarrow> Inl TypeError | Some k' \<Rightarrow> Inr (map_of w k')),
      createWithSeed = (\<lambda>base seed pid. Inr (PublicKey (bytes base @ map of_char seed @ bytes pid))),
      sendAndConfirmTransaction = (\<lambda>w c transaction signers.
         case execute w transaction of
           Inl e \<Rightarrow> (Inl e, w)
         | Inr w' \<Rightarrow> (Inr ''signature'', w'))\<rparr>"

text \<open>The same cluster with a faucet whose airdrops confirm without crediting anything.\<close>

definition dryFaucet :: "cluster env" where
  "dryFaucet = localCluster\<lparr>requestAirdrop := (\<lambda>w k n. (Inr ''airdrop'', w))\<rparr>"

text \<open>The cluster with the program deployed, and the module before and after its start.\<close>

definition deployed :: cluster where
  "deployed = [(PublicKey [2], \<lparr>executable = True, owner = systemProgram, lamports = 1, data = []\<rparr>)]"

definition initial :: "cluster state" where
  "initial =
     \<lparr>connection = None, payer = None, programId = None, calculatorPubKey = None,
      world = deployed, submitted = [], console = []\<rparr>"

definition connected :: "cluster state" where
  "connected = initial\<lparr>connection := Some ''http://127.0.0.1:8899''\<rparr>"

text \<open>
  The module once the payer is established, the address that \<open>checkProgram\<close> derives
  there, and the module and cluster once the account exists.
\<close>

definition funded :: "cluster state" where
  "funded = connected\<lparr>payer := Some \<lparr>publicKey = PublicKey [1], secretKey = [1]\<rparr>\<rparr>"

definition calculatorAddress :: PublicKey where
  "calculatorAddress = PublicKey ([1] @ map of_char CALCULATOR_SEED @ [2])"

definition holding :: "buffer \<Rightarrow> cluster" where
  "holding bs =
     (calculatorAddress,
      \<lparr>executable = False, owner = PublicKey [2], lamports = 918720, data = bs\<rparr>) # deployed"

definition ready :: "buffer \<Rightarrow> cluster state" where
  "ready bs =
     funded\<lparr>programId := Some (PublicKey [2]), calculatorPubKey := Some calculatorAddress,
            world := holding bs\<rparr>"

section \<open>Properties of the codecs\<close>

lemma length_le_bytes: "length (le_bytes v n) = n"
  by (induction n arbitrary: v) auto

lemma length_writeBytesLE: "length (writeBytesLE v off n buf) = length buf"
  by (induction n arbitrary: v off buf) auto

lemma writeBytesLE_splice:
  "off + n \<le> length buf \<Longrightarrow>
   writeBytesLE v off n buf = take off buf @ le_bytes v n @ drop (off + n) buf"
proof (induction n arbitrary: v off buf)
  case 0
  then show ?case by simp
next
  case (Suc n)
  have off: "off < length buf" using Suc.prems by simp
  have "writeBytesLE v off (Suc n) buf =
        writeBytesLE (v div 256) (Suc off) n (buf[off := word_of_int v])" by simp
  also have "\<dots> = take (Suc off) (buf[off := word_of_int v]) @ le_bytes (v div 256) n
                  @ drop (Suc off + n) (buf[off := word_of_int v])"
    using Suc.prems by (intro Suc.IH) simp
  also have "take (Suc off) (buf[off := word_of_int v]) = take off buf @ [word_of_int v]"
    using off by (simp add: take_Suc_conv_app_nth)
  also have "drop (Suc off + n) (buf[off := word_of_int v]) = drop (off + Suc n) buf"
    by simp
  finally show ?case by simp
qed

lemma readBytesLE_splice:
  "readBytesLE (pre @ bs @ post) (length pre) (length bs) = le_value bs"
proof (induction bs arbitrary: pre)
  case Nil
  then show ?case by simp
next
  case (Cons b bs)
  have "readBytesLE ((pre @ [b]) @ bs @ post) (length (pre @ [b])) (length bs) = le_value bs"
    by (rule Cons.IH)
  then show ?case by (simp add: nth_append)
qed

lemma le_value_le_bytes: "le_value (le_bytes v n) = v mod 256 ^ n"
proof (induction n arbitrary: v)
  case 0
  then show ?case by simp
next
  case (Suc n)
  have "le_value (le_bytes v (Suc n)) = v mod 256 + 256 * ((v div 256) mod 256 ^ n)"
    by (simp add: Suc.IH uint_word_of_int)
  also have "\<dots> = v mod 256 ^ Suc n"
    using zmod_zmult2_eq [of "256 ^ n" v 256] by simp
  finally show ?case .
qed




lemma writeUIntLE_splice:
  "writeUIntLE buf v off n =
     (if v < 0 \<or> 2 ^ (8 * n) - 1 < v \<or> length buf < off + n then Inl RangeError
      else Inr (take off buf @ le_bytes v n @ drop (off + n) buf))"
  by (simp add: writeUIntLE_def writeBytesLE_splice)

lemma readUIntLE_splice:
  "readUIntLE (pre @ bs @ post) (length pre) (length bs) = Inr (le_value bs)"
  by (simp add: readUIntLE_def readBytesLE_splice)

lemma le_value_le_bytes_id:
  "0 \<le> v \<Longrightarrow> v < 2 ^ (8 * n) \<Longrightarrow> le_value (le_bytes v n) = v"
proof -
  assume "0 \<le> v" and "v < 2 ^ (8 * n)"
  moreover have "(256::int) ^ n = 2 ^ (8 * n)"
    by (simp add: power_mult)
  ultimately show ?thesis
    by (simp add: le_value_le_bytes)
qed

lemma createInstruction_eq:
  "createInstruction operation num1 num2 =
     (if 0 \<le> num1 \<and> num1 < 2 ^ 32 \<and> 0 \<le> num2 \<and> num2 < 2 ^ 32
      then Inr (le_bytes (if operation = ''add'' then 0 else 1) 1 @ le_bytes num1 4 @ le_bytes num2 4)
      else Inl RangeError)"
proof -
  have nine: "alloc (struct_span layout) = [0, 0, 0, 0, 0, 0, 0, 0, 0]"
    by (simp add: alloc_def layout_def struct_span_def BufferLayout_u8_def
        BufferLayout_u32_def eval_nat_numeral)
  show ?thesis
    unfolding createInstruction_def nine Let_def
    by (simp add: layout_def BufferLayout_u8_def BufferLayout_u32_def writeUIntLE_splice
        length_le_bytes)
qed


lemma le_bytes_4:
  "le_bytes v 4 =
     [word_of_int v, word_of_int (v div 2 ^ 8), word_of_int (v div 2 ^ 16), word_of_int (v div 2 ^ 24)]"
  by (simp add: eval_nat_numeral zdiv_zmult2_eq [symmetric])

lemma readBytesLE_whole: "readBytesLE buf 0 (length buf) = le_value buf"
  using readBytesLE_splice [of "[]" buf "[]"] by simp

lemma serialize_eq:
  "serialize CalculatorSchema c =
     (if 0 \<le> result c \<and> result c < 2 ^ 32 then Inr (le_bytes (result c) 4) else Inl RangeError)"
  by (simp add: serialize_def CalculatorSchema_def Calculator_properties_def writeField_def
      writeUIntLE_splice alloc_def)

lemma deserialize_eq:
  "deserialize CalculatorSchema buf =
     (if length buf < 4 then Inl (BorshError ReachedEndOfBuffer)
      else if 4 < length buf then Inl (BorshError (UnexpectedBytes (length buf - 4)))
      else Inr \<lparr>result = le_value buf\<rparr>)"
proof (cases "length buf = 4")
  case True
  then have "readBytesLE buf 0 4 = le_value buf"
    using readBytesLE_whole [of buf] by simp
  with True show ?thesis
    by (simp add: deserialize_def CalculatorSchema_def readField_def readUIntLE_def
        new_Calculator_def)
next
  case False
  then show ?thesis
    by (auto simp add: deserialize_def CalculatorSchema_def readField_def readUIntLE_def)
qed

lemma struct_decode_layout:
  assumes "length b1 = 4" and "length b2 = 4"
  shows "struct_decode layout (c # b1 @ b2) 0 =
           Inr [(''instruction'', uint c), (''num1'', le_value b1), (''num2'', le_value b2)]"
proof -
  have r0: "readUIntLE (c # b1 @ b2) 0 (Suc 0) = Inr (uint c)"
    using readUIntLE_splice [of "[]" "[c]" "b1 @ b2"] by simp
  have r1: "readUIntLE (c # b1 @ b2) (Suc 0) 4 = Inr (le_value b1)"
    using readUIntLE_splice [of "[c]" b1 b2] assms by simp
  have r5: "readUIntLE (c # b1 @ b2) 5 4 = Inr (le_value b2)"
    using readUIntLE_splice [of "c # b1" b2 "[]"] assms by simp
  show ?thesis
    by (simp add: layout_def BufferLayout_u8_def BufferLayout_u32_def r0 r1 r5)
qed

lemma decodeRequest_encoded:
  assumes "c = 0 \<or> c = 1" and "0 \<le> num1" and "num1 < 2 ^ 32" and "0 \<le> num2" and "num2 < 2 ^ 32"
  shows "decodeRequest (c # le_bytes num1 4 @ le_bytes num2 4) =
           Inr (if c = 0 then ''add'' else ''sub'', num1, num2)"
proof -
  have "struct_span layout = 9"
    by (simp add: struct_span_def layout_def BufferLayout_u8_def BufferLayout_u32_def)
  moreover have "le_value (le_bytes num1 4) = num1" and "le_value (le_bytes num2 4) = num2"
    using assms le_value_le_bytes_id [of num1 4] le_value_le_bytes_id [of num2 4] by simp_all
  ultimately show ?thesis
    using assms(1) by (auto simp add: decodeRequest_def struct_decode_layout length_le_bytes)
qed

subsection \<open>The claims about the codecs\<close>

text \<open>
  C2. For the operations "add" and "sub" and operands in the unsigned 32-bit range,
  \<open>createInstruction\<close> does not fail and returns exactly 9 bytes: the opcode byte (0 for
  add, 1 for sub), then the 4 little-endian bytes of the first operand, then the 4
  little-endian bytes of the second.
\<close>
theorem createInstruction_request_layout:
  assumes "operation = ''add'' \<or> operation = ''sub''"
    and "0 \<le> num1" and "num1 < 2 ^ 32" and "0 \<le> num2" and "num2 < 2 ^ 32"
  shows "createInstruction operation num1 num2 =
           Inr [if operation = ''add'' then 0 else 1,
                word_of_int num1, word_of_int (num1 div 2 ^ 8),
                word_of_int (num1 div 2 ^ 16), word_of_int (num1 div 2 ^ 24),
                word_of_int num2, word_of_int (num2 div 2 ^ 8),
                word_of_int (num2 div 2 ^ 16), word_of_int (num2 div 2 ^ 24)]
         \<and> (\<exists>req. createInstruction operation num1 num2 = Inr req \<and> length req = 9)"
  using assms by (auto simp add: createInstruction_eq le_bytes_4)

theorem createInstruction_request_layout_witness:
  "(''sub'' = ''add'' \<or> ''sub'' = ''sub'') \<and> (0::int) \<le> 258 \<and> (258::int) < 2 ^ 32
   \<and> (0::int) \<le> 4294967295 \<and> (4294967295::int) < 2 ^ 32
   \<and> createInstruction ''sub'' 258 4294967295 = Inr [1, 2, 1, 0, 0, 255, 255, 255, 255]"
  using createInstruction_request_layout [of "''sub''" 258 4294967295] by simp

text \<open>
  C10. Inside \<open>createInstruction\<close> the opcode byte is 0 only for the string "add" and
  1 for every other string, "sub" or not: any other name is encoded exactly as "sub" is,
  and the only failure of the encoder is the RangeError of an operand outside the
  unsigned 32-bit range, whatever the name. Rejecting an unknown name is left to the
  lookup in the dispatch table.
\<close>
theorem createInstruction_opcode_any_name:
  "createInstruction operation num1 num2 =
     createInstruction (if operation = ''add'' then ''add'' else ''sub'') num1 num2
   \<and> (case createInstruction operation num1 num2 of
        Inl e \<Rightarrow> e = RangeError \<and> \<not> (0 \<le> num1 \<and> num1 < 2 ^ 32 \<and> 0 \<le> num2 \<and> num2 < 2 ^ 32)
      | Inr req \<Rightarrow> take 1 req = [if operation = ''add'' then 0 else 1])"
  by (simp add: createInstruction_eq)

text \<open>
  C4. \<open>borsh.deserialize\<close> with the calculator's schema succeeds exactly on buffers of
  4 bytes: a shorter or a longer buffer is refused with a BorshError (the error the
  specification calls MalformedStateError), a buffer of 4 bytes gives a \<open>Calculator\<close>,
  and four zero bytes give \<open>result = 0\<close>.
\<close>
theorem deserialize_exactly_four_bytes:
  "deserialize CalculatorSchema buf =
     (if length buf = 4 then Inr \<lparr>result = readBytesLE buf 0 4\<rparr>
      else Inl (BorshError (if length buf < 4 then ReachedEndOfBuffer
                            else UnexpectedBytes (length buf - 4))))
   \<and> deserialize CalculatorSchema (alloc 4) = Inr \<lparr>result = 0\<rparr>"
proof -
  have "length buf = 4 \<Longrightarrow> readBytesLE buf 0 4 = le_value buf"
    using readBytesLE_whole [of buf] by simp
  moreover have "le_value (alloc 4) = 0"
    by (simp add: alloc_def eval_nat_numeral)
  ultimately show ?thesis
    by (auto simp add: deserialize_eq alloc_def)
qed

text \<open>
  C3. The codecs round-trip: for every r in the unsigned 32-bit range, deserializing the
  serialized \<open>Calculator\<close> with \<open>result = r\<close> gives that record back; and for every
  request of "add" or "sub" with operands in that range, decoding the buffer of
  \<open>createInstruction\<close> gives back the operation and both operands.
\<close>
theorem codecs_round_trip:
  assumes "0 \<le> r" and "r < 2 ^ 32"
    and "operation = ''add'' \<or> operation = ''sub''"
    and "0 \<le> num1" and "num1 < 2 ^ 32" and "0 \<le> num2" and "num2 < 2 ^ 32"
  shows "(\<exists>bytes. serialize CalculatorSchema \<lparr>result = r\<rparr> = Inr bytes
            \<and> deserialize CalculatorSchema bytes = Inr \<lparr>result = r\<rparr>)
       \<and> (\<exists>req. createInstruction operation num1 num2 = Inr req
            \<and> decodeRequest req = Inr (operation, num1, num2))"
proof -
  have state: "deserialize CalculatorSchema (le_bytes r 4) = Inr \<lparr>result = r\<rparr>"
    using assms(1,2) le_value_le_bytes_id [of r 4]
    by (simp add: deserialize_eq length_le_bytes)
  have "decodeRequest ((if operation = ''add'' then 0 else 1) # le_bytes num1 4 @ le_bytes num2 4)
          = Inr (operation, num1, num2)"
    using assms(3-7) decodeRequest_encoded [of "if operation = ''add'' then 0 else 1" num1 num2]
    by auto
  with state show ?thesis
    using assms by (auto simp add: serialize_eq createInstruction_eq)
qed

theorem codecs_round_trip_witness:
  "(0::int) \<le> 4294967295 \<and> (4294967295::int) < 2 ^ 32
   \<and> (''sub'' = ''add'' \<or> ''sub'' = ''sub'')
   \<and> (0::int) \<le> 7 \<and> (7::int) < 2 ^ 32 \<and> (0::int) \<le> 5 \<and> (5::int) < 2 ^ 32
   \<and> (\<exists>bytes. serialize CalculatorSchema \<lparr>result = 4294967295\<rparr> = Inr bytes
          \<and> deserialize CalculatorSchema bytes = Inr \<lparr>result = 4294967295\<rparr>)
   \<and> (\<exists>req. createInstruction ''sub'' 7 5 = Inr req
          \<and> decodeRequest req = Inr (''sub'', 7, 5))"
  using codecs_round_trip [of 4294967295 "''sub''" 7 5] by simp

section \<open>Properties of the client\<close>

subsection \<open>Unfolding the client's functions\<close>

lemmas prog_defs = bindP_def returnP_def throw_def liftE_def query_def request_def
  defined_def modify_def console_log_def

lemmas cluster_defs = localCluster_def dryFaucet_def deployed_def initial_def connected_def
  funded_def ready_def holding_def calculatorAddress_def CALCULATOR_SEED_def systemProgram_def

lemma CALCULATOR_SIZE_4: "CALCULATOR_SIZE = 4"
  by (simp add: CALCULATOR_SIZE_def serialize_eq new_Calculator_def length_le_bytes)

lemma serialize_new_Calculator: "serialize CalculatorSchema (new_Calculator None) = Inr [0, 0, 0, 0]"
  by (simp add: serialize_eq new_Calculator_def le_bytes_4)

subsection \<open>displayResult\<close>

text \<open>
  C9. With the connection established, \<open>displayResult\<close> on an absent account (the
  cluster answers null for the calculator's address) throws "Error: cannot find the
  calculator account" (the error the specification calls AccountNotFoundError) and leaves
  the module, the cluster, the submissions and the console as they were. When the
  account is present its data goes through the state codec: a BorshError of the decoder
  is propagated as it is, again with nothing changed, and a decoded record is printed.
\<close>
theorem displayResult_absent_or_decoded:
  assumes "connection s = Some url"
  shows "(getAccountInfo env (world s) (calculatorPubKey s) = Inr None \<longrightarrow>
            displayResult env operation num1 num2 s =
              (Inl (Thrown ''Error: cannot find the calculator account''), s))
       \<and> (getAccountInfo env (world s) (calculatorPubKey s) = Inr (Some info)
            \<and> deserialize CalculatorSchema (data info) = Inl e \<longrightarrow>
            displayResult env operation num1 num2 s = (Inl e, s))
       \<and> (getAccountInfo env (world s) (calculatorPubKey s) = Inr (Some info)
            \<and> deserialize CalculatorSchema (data info) = Inr c \<longrightarrow>
            displayResult env operation num1 num2 s =
              (Inr (), s\<lparr>console := console s @
                 [LogResult num1 (if operation = ''add'' then ''+'' else ''-'') num2 (result c)]\<rparr>))"
  using assms by (simp add: displayResult_def prog_defs)



theorem displayResult_absent_or_decoded_witness:
  "connection (funded\<lparr>calculatorPubKey := Some calculatorAddress\<rparr>) = Some ''http://127.0.0.1:8899''
   \<and> getAccountInfo localCluster (world (funded\<lparr>calculatorPubKey := Some calculatorAddress\<rparr>))
         (calculatorPubKey (funded\<lparr>calculatorPubKey := Some calculatorAddress\<rparr>)) = Inr None
   \<and> fst (displayResult localCluster ''add'' 7 5 (funded\<lparr>calculatorPubKey := Some calculatorAddress\<rparr>))
         = Inl (Thrown ''Error: cannot find the calculator account'')
   \<and> deserialize CalculatorSchema [1, 2, 3] = Inl (BorshError ReachedEndOfBuffer)
   \<and> fst (displayResult localCluster ''add'' 7 5 (ready [1, 2, 3])) = Inl (BorshError ReachedEndOfBuffer)
   \<and> deserialize CalculatorSchema [12, 0, 0, 0] = Inr \<lparr>result = 12\<rparr>
   \<and> console (snd (displayResult localCluster ''add'' 7 5 (ready [12, 0, 0, 0]))) = [LogResult 7 ''+'' 5 12]"
proof -
  let ?absent = "funded\<lparr>calculatorPubKey := Some calculatorAddress\<rparr>"
  let ?info = "\<lambda>bs. \<lparr>executable = False, owner = PublicKey [2], lamports = 918720, data = bs\<rparr>"
  have short: "deserialize CalculatorSchema [1, 2, 3] = Inl (BorshError ReachedEndOfBuffer)"
    by (simp add: deserialize_eq)
  have twelve: "deserialize CalculatorSchema [12, 0, 0, 0] = Inr \<lparr>result = 12\<rparr>"
    by (simp add: deserialize_eq)
  have "connection ?absent = Some ''http://127.0.0.1:8899''"
    and "getAccountInfo localCluster (world ?absent) (calculatorPubKey ?absent) = Inr None"
    by (simp_all add: cluster_defs)
  moreover have "connection (ready bs) = Some ''http://127.0.0.1:8899''"
    and "getAccountInfo localCluster (world (ready bs)) (calculatorPubKey (ready bs))
           = Inr (Some (?info bs))" for bs
    by (simp_all add: cluster_defs)
  ultimately show ?thesis
    using short twelve
      displayResult_absent_or_decoded [where s = ?absent and env = localCluster
        and operation = "''add''" and ?num1.0 = 7 and ?num2.0 = 5]
      displayResult_absent_or_decoded [where s = "ready [1, 2, 3]" and env = localCluster
        and info = "?info [1, 2, 3]" and e = "BorshError ReachedEndOfBuffer"
        and operation = "''add''" and ?num1.0 = 7 and ?num2.0 = 5]
      displayResult_absent_or_decoded [where s = "ready [12, 0, 0, 0]" and env = localCluster
        and info = "?info [12, 0, 0, 0]" and c = "\<lparr>result = 12\<rparr>"
        and operation = "''add''" and ?num1.0 = 7 and ?num2.0 = 5]
    by (simp add: ready_def funded_def connected_def initial_def)
qed

subsection \<open>calculate\<close>

lemma call_unknown:
  assumes "operation \<notin> {''add'', ''sub'', ''constructor'', ''toString'', ''isPrototypeOf''}"
  shows "call (instructionMap operation) num1 num2 = Inl TypeError"
  using assms by (simp add: instructionMap_def Object_prototype_def)

text \<open>
  C1, as the code has it. For every operation name other than "add" and "sub" and other
  than the three names "constructor", "toString" and "isPrototypeOf" that the table
  inherits as functions returning normally, \<open>calculate\<close> fails with a TypeError (the
  failure the specification calls UnknownOperationError) at the call of what the lookup
  gave, so before \<open>createInstruction\<close> is reached; it hands no transaction to
  \<open>sendAndConfirmTransaction\<close> and leaves the cluster as it was. "mul" is such a name.
\<close>

theorem calculate_unknown_operation:
  assumes "operation \<notin> {''add'', ''sub'', ''constructor'', ''toString'', ''isPrototypeOf''}"
  shows "call (instructionMap operation) num1 num2 = Inl TypeError
       \<and> fst (calculate env operation num1 num2 s) = Inl TypeError
       \<and> submitted (snd (calculate env operation num1 num2 s)) = submitted s
       \<and> world (snd (calculate env operation num1 num2 s)) = world s"
  using call_unknown [OF assms, of num1 num2]
  by (simp add: calculate_def prog_defs Let_def split: option.split)

theorem calculate_unknown_operation_witness:
  "''mul'' \<notin> {''add'', ''sub'', ''constructor'', ''toString'', ''isPrototypeOf''}
   \<and> call (instructionMap ''mul'') 1 1 = Inl TypeError
   \<and> fst (calculate localCluster ''mul'' 1 1 (ready [0, 0, 0, 0])) = Inl TypeError
   \<and> submitted (snd (calculate localCluster ''mul'' 1 1 (ready [0, 0, 0, 0]))) = []
   \<and> world (snd (calculate localCluster ''mul'' 1 1 (ready [0, 0, 0, 0]))) = holding [0, 0, 0, 0]"
  using calculate_unknown_operation [where operation = "''mul''" and ?num1.0 = 1 and ?num2.0 = 1
      and env = localCluster and s = "ready [0, 0, 0, 0]"]
  by (simp add: ready_def funded_def connected_def initial_def)

text \<open>
  The claim does not hold for every name outside the table: "isPrototypeOf" is not a key
  of the table, yet the lookup finds the inherited method, the call answers false
  instead of throwing, and the transaction is submitted with that value as its data.
\<close>

theorem calculate_inherited_name_counterexample:
  "''isPrototypeOf'' \<notin> {''add'', ''sub''}
   \<and> call (instructionMap ''isPrototypeOf'') 1 1 = Inr (JSBoolean False)
   \<and> submitted (snd (calculate localCluster ''isPrototypeOf'' 1 1 (ready [0, 0, 0, 0]))) =
        [[TransactionInstruction [(calculatorAddress, False, True)] (Some (PublicKey [2]))
            (JSBoolean False)]]"
  by (simp add: calculate_def prog_defs sendAndConfirm_def Let_def instructionMap_def
      Object_prototype_def ready_def funded_def connected_def initial_def localCluster_def)

subsection \<open>establishPayer\<close>

lemma establishPayer_airdrop_path:
  assumes "connection s = Some url" and "payer s = None"
    and "getRecentBlockhash env (world s) = Inr lamportsPerSignature"
    and "getMinimumBalanceForRentExemption env (world s) CALCULATOR_SIZE = Inr rent"
    and "getPayer env = Inr p"
    and "getBalance env (world s) (publicKey p) = Inr balance"
    and "balance < rent + lamportsPerSignature * 100"
    and "requestAirdrop env (world s) (publicKey p) (rent + lamportsPerSignature * 100 - balance)
           = (Inr sig, w1)"
    and "confirmTransaction env w1 sig = (Inr (), w2)"
    and "getBalance env w2 (publicKey p) = Inr balance'"
  shows "establishPayer env s =
           (Inr (), s\<lparr>payer := Some p, world := w2,
                       console := console s @ [LogUsingAccount (publicKey p) (2 * LAMPORTS_PER_SOL)]\<rparr>)"
  using assms by (simp add: establishPayer_def computeFees_def prog_defs)

lemma establishPayer_failure:
  assumes "fst (establishPayer env s) = Inl e"
  shows "(e = TypeError \<and> connection s = None)
       \<or> getRecentBlockhash env (world s) = Inl e
       \<or> getMinimumBalanceForRentExemption env (world s) CALCULATOR_SIZE = Inl e
       \<or> getPayer env = Inl e
       \<or> (\<exists>w k. getBalance env w k = Inl e)
       \<or> (\<exists>k n w'. requestAirdrop env (world s) k n = (Inl e, w'))
       \<or> (\<exists>w sig w'. confirmTransaction env w sig = (Inl e, w'))"
  using assms
  by (auto simp add: establishPayer_def computeFees_def prog_defs
      split: option.splits sum.splits prod.splits if_splits)

text \<open>
  C8, as the code has it. \<open>establishPayer\<close> does not compare the balance with the fees
  after the airdrop: when the balance is below the computed fees and the airdrop request
  and its confirmation succeed, it returns normally whatever the balance read afterwards
  is, also one that is still below the fees. And it raises no error of its own for
  insufficient funds: whenever it fails, the error is either the TypeError of reading the
  undefined connection or the very error that one of the calls it makes answered
  (\<open>getRecentBlockhash\<close>, \<open>getMinimumBalanceForRentExemption\<close>, \<open>getPayer\<close>,
  \<open>getBalance\<close>, \<open>requestAirdrop\<close>, \<open>confirmTransaction\<close>).
\<close>

theorem establishPayer_no_balance_check:
  "(connection s = Some url \<and> payer s = None
      \<and> getRecentBlockhash env (world s) = Inr lamportsPerSignature
      \<and> getMinimumBalanceForRentExemption env (world s) CALCULATOR_SIZE = Inr rent
      \<and> getPayer env = Inr p
      \<and> getBalance env (world s) (publicKey p) = Inr balance
      \<and> balance < rent + lamportsPerSignature * 100
      \<and> requestAirdrop env (world s) (publicKey p) (rent + lamportsPerSignature * 100 - balance)
           = (Inr sig, w1)
      \<and> confirmTransaction env w1 sig = (Inr (), w2)
      \<and> getBalance env w2 (publicKey p) = Inr balance' \<longrightarrow>
    establishPayer env s =
      (Inr (), s\<lparr>payer := Some p, world := w2,
                  console := console s @ [LogUsingAccount (publicKey p) (2 * LAMPORTS_PER_SOL)]\<rparr>))
   \<and> (fst (establishPayer env t) = Inl e \<longrightarrow>
         (e = TypeError \<and> connection t = None)
       \<or> getRecentBlockhash env (world t) = Inl e
       \<or> getMinimumBalanceForRentExemption env (world t) CALCULATOR_SIZE = Inl e
       \<or> getPayer env = Inl e
       \<or> (\<exists>w k. getBalance env w k = Inl e)
       \<or> (\<exists>k n w'. requestAirdrop env (world t) k n = (Inl e, w'))
       \<or> (\<exists>w sig' w'. confirmTransaction env w sig' = (Inl e, w')))"
proof (intro conjI impI)
  assume "connection s = Some url \<and> payer s = None
      \<and> getRecentBlockhash env (world s) = Inr lamportsPerSignature
      \<and> getMinimumBalanceForRentExemption env (world s) CALCULATOR_SIZE = Inr rent
      \<and> getPayer env = Inr p
      \<and> getBalance env (world s) (publicKey p) = Inr balance
      \<and> balance < rent + lamportsPerSignature * 100
      \<and> requestAirdrop env (world s) (publicKey p) (rent + lamportsPerSignature * 100 - balance)
           = (Inr sig, w1)
      \<and> confirmTransaction env w1 sig = (Inr (), w2)
      \<and> getBalance env w2 (publicKey p) = Inr balance'"
  then show "establishPayer env s =
      (Inr (), s\<lparr>payer := Some p, world := w2,
                  console := console s @ [LogUsingAccount (publicKey p) (2 * LAMPORTS_PER_SOL)]\<rparr>)"
    using establishPayer_airdrop_path [where env = env and s = s and url = url
        and lamportsPerSignature = lamportsPerSignature and rent = rent and p = p
        and balance = balance and sig = sig and ?w1.0 = w1 and ?w2.0 = w2 and balance' = balance']
    by simp
next
  assume "fst (establishPayer env t) = Inl e"
  then show "(e = TypeError \<and> connection t = None)
       \<or> getRecentBlockhash env (world t) = Inl e
       \<or> getMinimumBalanceForRentExemption env (world t) CALCULATOR_SIZE = Inl e
       \<or> getPayer env = Inl e
       \<or> (\<exists>w k. getBalance env w k = Inl e)
       \<or> (\<exists>k n w'. requestAirdrop env (world t) k n = (Inl e, w'))
       \<or> (\<exists>w sig' w'. confirmTransaction env w sig' = (Inl e, w'))"
    by (rule establishPayer_failure)
qed

theorem establishPayer_no_balance_check_witness:
  "connection connected = Some ''http://127.0.0.1:8899'' \<and> payer connected = None
   \<and> getRecentBlockhash dryFaucet (world connected) = Inr 5000
   \<and> getMinimumBalanceForRentExemption dryFaucet (world connected) CALCULATOR_SIZE = Inr 918720
   \<and> getPayer dryFaucet = Inr \<lparr>publicKey = PublicKey [1], secretKey = [1]\<rparr>
   \<and> getBalance dryFaucet (world connected) (PublicKey [1]) = Inr 0
   \<and> (0::int) < 918720 + 5000 * 100
   \<and> requestAirdrop dryFaucet (world connected) (PublicKey [1]) (918720 + 5000 * 100 - 0)
        = (Inr ''airdrop'', deployed)
   \<and> confirmTransaction dryFaucet deployed ''airdrop'' = (Inr (), deployed)
   \<and> getBalance dryFaucet deployed (PublicKey [1]) = Inr 0
   \<and> establishPayer dryFaucet connected =
        (Inr (), connected\<lparr>payer := Some \<lparr>publicKey = PublicKey [1], secretKey = [1]\<rparr>,
                   world := deployed,
                   console := console connected @ [LogUsingAccount (PublicKey [1]) (2 * LAMPORTS_PER_SOL)]\<rparr>)
   \<and> fst (establishPayer dryFaucet initial) = Inl TypeError
   \<and> connection initial = None"
proof -
  have failing: "fst (establishPayer dryFaucet initial) = Inl TypeError"
    by (simp add: establishPayer_def computeFees_def prog_defs initial_def)
  show ?thesis
    using failing
      establishPayer_no_balance_check [where s = connected and t = initial and env = dryFaucet
        and url = "''http://127.0.0.1:8899''" and lamportsPerSignature = 5000 and rent = 918720
        and p = "\<lparr>publicKey = PublicKey [1], secretKey = [1]\<rparr>" and balance = 0
        and sig = "''airdrop''" and ?w1.0 = deployed and ?w2.0 = deployed and balance' = 0
        and e = TypeError]
    by (simp add: CALCULATOR_SIZE_4 dryFaucet_def localCluster_def connected_def initial_def
        deployed_def)
qed

text \<open>
  With a faucet that confirms without crediting, the fees are 1418720 lamports, the
  balance after the airdrop is still 0, and \<open>establishPayer\<close> returns normally.
\<close>

theorem establishPayer_underfunded_counterexample:
  "fst (computeFees dryFaucet connected) = Inr 1418720
   \<and> fst (establishPayer dryFaucet connected) = Inr ()
   \<and> getBalance dryFaucet (world (snd (establishPayer dryFaucet connected))) (PublicKey [1]) = Inr 0"
  by (simp add: establishPayer_def computeFees_def prog_defs CALCULATOR_SIZE_4 dryFaucet_def
      localCluster_def connected_def initial_def deployed_def)


subsection \<open>checkProgram\<close>

lemma checkProgram_absent:
  assumes "connection s = Some url" and "payer s = Some p"
    and "createKeypairFromFile env (PROGRAM_KEYPAIR_PATH env) = Inr programKeypair"
    and "getAccountInfo env (world s) (Some (publicKey programKeypair)) = Inr (Some programInfo)"
    and "executable programInfo"
    and "createWithSeed env (publicKey p) CALCULATOR_SEED (publicKey programKeypair) = Inr address"
    and "getAccountInfo env (world s) (Some address) = Inr None"
    and "getMinimumBalanceForRentExemption env (world s) CALCULATOR_SIZE = Inr rent"
    and "sendAndConfirmTransaction env (world s) (Some url)
           [CreateAccountWithSeed (publicKey p) (publicKey p) CALCULATOR_SEED address rent
              CALCULATOR_SIZE (publicKey programKeypair)] [Some p] = (r, w1)"
  shows "checkProgram env s =
           (map_sum id (\<lambda>_. ()) r,
            s\<lparr>programId := Some (publicKey programKeypair), calculatorPubKey := Some address,
               world := w1,
               submitted := submitted s @
                 [[CreateAccountWithSeed (publicKey p) (publicKey p) CALCULATOR_SEED address rent
                     CALCULATOR_SIZE (publicKey programKeypair)]],
               console := console s @ [LogUsingProgram (publicKey programKeypair), LogCreating address]\<rparr>)"
  using assms
  by (cases r) (simp_all add: checkProgram_def readProgramId_def checkDeployed_def
      createCalculatorAccount_def sendAndConfirm_def prog_defs Let_def)

lemma checkProgram_present:
  assumes "connection s = Some url" and "payer s = Some p"
    and "createKeypairFromFile env (PROGRAM_KEYPAIR_PATH env) = Inr programKeypair"
    and "getAccountInfo env (world s) (Some (publicKey programKeypair)) = Inr (Some programInfo)"
    and "executable programInfo"
    and "createWithSeed env (publicKey p) CALCULATOR_SEED (publicKey programKeypair) = Inr address"
    and "getAccountInfo env (world s) (Some address) = Inr (Some account)"
  shows "checkProgram env s =
           (Inr (),
            s\<lparr>programId := Some (publicKey programKeypair), calculatorPubKey := Some address,
               console := console s @ [LogUsingProgram (publicKey programKeypair)]\<rparr>)"
  using assms
  by (simp add: checkProgram_def readProgramId_def checkDeployed_def prog_defs)


text \<open>
  C5. The serialized \<open>new Calculator()\<close> is 4 bytes long and \<open>CALCULATOR_SIZE\<close> is
  that length; when \<open>checkProgram\<close> finds no account at the derived address, the
  transaction it submits creates the account with the rent asked for that same size and
  with that same size as its space.
\<close>

theorem CALCULATOR_SIZE_provisioning:
  assumes "connection s = Some url" and "payer s = Some p"
    and "createKeypairFromFile env (PROGRAM_KEYPAIR_PATH env) = Inr programKeypair"
    and "getAccountInfo env (world s) (Some (publicKey programKeypair)) = Inr (Some programInfo)"
    and "executable programInfo"
    and "createWithSeed env (publicKey p) CALCULATOR_SEED (publicKey programKeypair) = Inr address"
    and "getAccountInfo env (world s) (Some address) = Inr None"
    and "getMinimumBalanceForRentExemption env (world s) 4 = Inr rent"
  shows "serialize CalculatorSchema (new_Calculator None) = Inr [0, 0, 0, 0]
       \<and> CALCULATOR_SIZE = 4
       \<and> submitted (snd (checkProgram env s)) =
           submitted s @
             [[CreateAccountWithSeed (publicKey p) (publicKey p) ''IamTheCalculator'' address
                 rent 4 (publicKey programKeypair)]]"
proof -
  obtain r w1 where
    "sendAndConfirmTransaction env (world s) (Some url)
       [CreateAccountWithSeed (publicKey p) (publicKey p) CALCULATOR_SEED address rent
          CALCULATOR_SIZE (publicKey programKeypair)] [Some p] = (r, w1)"
    by (cases "sendAndConfirmTransaction env (world s) (Some url)
       [CreateAccountWithSeed (publicKey p) (publicKey p) CALCULATOR_SEED address rent
          CALCULATOR_SIZE (publicKey programKeypair)] [Some p]") auto
  with assms show ?thesis
    by (simp add: checkProgram_absent [where env = env and s = s] CALCULATOR_SIZE_4
        serialize_new_Calculator CALCULATOR_SEED_def)
qed

theorem CALCULATOR_SIZE_provisioning_witness:
  "connection funded = Some ''http://127.0.0.1:8899''
   \<and> payer funded = Some \<lparr>publicKey = PublicKey [1], secretKey = [1]\<rparr>
   \<and> createKeypairFromFile localCluster (PROGRAM_KEYPAIR_PATH localCluster)
        = Inr \<lparr>publicKey = PublicKey [2], secretKey = [2]\<rparr>
   \<and> getAccountInfo localCluster (world funded) (Some (PublicKey [2]))
        = Inr (Some \<lparr>executable = True, owner = systemProgram, lamports = 1, data = []\<rparr>)
   \<and> createWithSeed localCluster (PublicKey [1]) CALCULATOR_SEED (PublicKey [2]) = Inr calculatorAddress
   \<and> getAccountInfo localCluster (world funded) (Some calculatorAddress) = Inr None
   \<and> getMinimumBalanceForRentExemption localCluster (world funded) 4 = Inr 918720
   \<and> submitted (snd (checkProgram localCluster funded)) =
        [[CreateAccountWithSeed (PublicKey [1]) (PublicKey [1]) ''IamTheCalculator''
            calculatorAddress 918720 4 (PublicKey [2])]]"
  using CALCULATOR_SIZE_provisioning [where s = funded and env = localCluster
      and url = "''http://127.0.0.1:8899''" and p = "\<lparr>publicKey = PublicKey [1], secretKey = [1]\<rparr>"
      and programKeypair = "\<lparr>publicKey = PublicKey [2], secretKey = [2]\<rparr>"
      and programInfo = "\<lparr>executable = True, owner = systemProgram, lamports = 1, data = []\<rparr>"
      and address = calculatorAddress and rent = 918720]
  by (simp add: cluster_defs)

text \<open>
  C6. Provisioning is idempotent. With the program deployed, when the cluster reports an
  account at the derived address \<open>checkProgram\<close> returns normally without submitting
  anything. And when there is none, the creation is confirmed and the cluster then holds
  the account with the zero-filled data of the requested size, two calls in sequence
  both return normally, exactly one transaction (the creation) has been submitted, and
  the account's data decodes to \<open>result = 0\<close>.
\<close>

theorem checkProgram_idempotent:
  assumes "connection s = Some url" and "payer s = Some p"
    and "createKeypairFromFile env (PROGRAM_KEYPAIR_PATH env) = Inr programKeypair"
    and "createWithSeed env (publicKey p) CALCULATOR_SEED (publicKey programKeypair) = Inr address"
    and "getAccountInfo env (world s) (Some (publicKey programKeypair)) = Inr (Some programInfo)"
    and "executable programInfo"
  shows "(getAccountInfo env (world s) (Some address) = Inr (Some account) \<longrightarrow>
            fst (checkProgram env s) = Inr ()
          \<and> submitted (snd (checkProgram env s)) = submitted s
          \<and> world (snd (checkProgram env s)) = world s)
       \<and> (getAccountInfo env (world s) (Some address) = Inr None
          \<and> getMinimumBalanceForRentExemption env (world s) CALCULATOR_SIZE = Inr rent
          \<and> sendAndConfirmTransaction env (world s) (Some url)
               [CreateAccountWithSeed (publicKey p) (publicKey p) CALCULATOR_SEED address rent
                  CALCULATOR_SIZE (publicKey programKeypair)] [Some p] = (Inr sig, w1)
          \<and> getAccountInfo env w1 (Some (publicKey programKeypair)) = Inr (Some programInfo')
          \<and> executable programInfo'
          \<and> getAccountInfo env w1 (Some address) = Inr (Some created)
          \<and> data created = alloc CALCULATOR_SIZE \<longrightarrow>
            fst (checkProgram env s) = Inr ()
          \<and> fst (checkProgram env (snd (checkProgram env s))) = Inr ()
          \<and> submitted (snd (checkProgram env (snd (checkProgram env s)))) =
               submitted s @
                 [[CreateAccountWithSeed (publicKey p) (publicKey p) CALCULATOR_SEED address rent
                     CALCULATOR_SIZE (publicKey programKeypair)]]
          \<and> world (snd (checkProgram env (snd (checkProgram env s)))) = w1
          \<and> deserialize CalculatorSchema (data created) = Inr \<lparr>result = 0\<rparr>)"
proof (intro conjI impI)
  assume present: "getAccountInfo env (world s) (Some address) = Inr (Some account)"
  have "checkProgram env s =
      (Inr (), s\<lparr>programId := Some (publicKey programKeypair), calculatorPubKey := Some address,
                 console := console s @ [LogUsingProgram (publicKey programKeypair)]\<rparr>)"
    by (rule checkProgram_present [OF assms(1,2,3,5,6,4) present])
  then show "fst (checkProgram env s) = Inr ()"
    and "submitted (snd (checkProgram env s)) = submitted s"
    and "world (snd (checkProgram env s)) = world s"
    by simp_all
next
  let ?create = "[CreateAccountWithSeed (publicKey p) (publicKey p) CALCULATOR_SEED address rent
                    CALCULATOR_SIZE (publicKey programKeypair)]"
  let ?s1 = "s\<lparr>programId := Some (publicKey programKeypair), calculatorPubKey := Some address,
               world := w1, submitted := submitted s @ [?create],
               console := console s @ [LogUsingProgram (publicKey programKeypair), LogCreating address]\<rparr>"
  assume twice: "getAccountInfo env (world s) (Some address) = Inr None
          \<and> getMinimumBalanceForRentExemption env (world s) CALCULATOR_SIZE = Inr rent
          \<and> sendAndConfirmTransaction env (world s) (Some url) ?create [Some p] = (Inr sig, w1)
          \<and> getAccountInfo env w1 (Some (publicKey programKeypair)) = Inr (Some programInfo')
          \<and> executable programInfo'
          \<and> getAccountInfo env w1 (Some address) = Inr (Some created)
          \<and> data created = alloc CALCULATOR_SIZE"
  have first: "checkProgram env s = (Inr (), ?s1)"
    using checkProgram_absent [where env = env and s = s and r = "Inr sig" and ?w1.0 = w1
        and url = url and p = p and programKeypair = programKeypair
        and programInfo = programInfo and address = address and rent = rent]
      assms twice by simp
  have second: "checkProgram env ?s1 =
      (Inr (), ?s1\<lparr>programId := Some (publicKey programKeypair), calculatorPubKey := Some address,
                   console := console ?s1 @ [LogUsingProgram (publicKey programKeypair)]\<rparr>)"
    using checkProgram_present [where env = env and s = ?s1 and url = url and p = p
        and programKeypair = programKeypair and programInfo = programInfo'
        and address = address and account = created]
      assms twice by simp
  show "fst (checkProgram env s) = Inr ()"
    by (simp add: first)
  show "fst (checkProgram env (snd (checkProgram env s))) = Inr ()"
    by (simp add: first second)
  show "submitted (snd (checkProgram env (snd (checkProgram env s)))) = submitted s @ [?create]"
    by (simp add: first second)
  show "world (snd (checkProgram env (snd (checkProgram env s)))) = w1"
    by (simp add: first second)
  show "deserialize CalculatorSchema (data created) = Inr \<lparr>result = 0\<rparr>"
    using twice by (simp add: CALCULATOR_SIZE_4 deserialize_eq alloc_def eval_nat_numeral)
qed


theorem checkProgram_idempotent_witness:
  "connection funded = Some ''http://127.0.0.1:8899''
   \<and> payer funded = Some \<lparr>publicKey = PublicKey [1], secretKey = [1]\<rparr>
   \<and> createKeypairFromFile localCluster (PROGRAM_KEYPAIR_PATH localCluster)
        = Inr \<lparr>publicKey = PublicKey [2], secretKey = [2]\<rparr>
   \<and> createWithSeed localCluster (PublicKey [1]) CALCULATOR_SEED (PublicKey [2]) = Inr calculatorAddress
   \<and> getAccountInfo localCluster (world funded) (Some calculatorAddress) = Inr None
   \<and> getMinimumBalanceForRentExemption localCluster (world funded) CALCULATOR_SIZE = Inr 918720
   \<and> sendAndConfirmTransaction localCluster (world funded) (Some ''http://127.0.0.1:8899'')
        [CreateAccountWithSeed (PublicKey [1]) (PublicKey [1]) CALCULATOR_SEED calculatorAddress
           918720 CALCULATOR_SIZE (PublicKey [2])]
        [Some \<lparr>publicKey = PublicKey [1], secretKey = [1]\<rparr>]
        = (Inr ''signature'', holding [0, 0, 0, 0])
   \<and> getAccountInfo localCluster (holding [0, 0, 0, 0]) (Some calculatorAddress)
        = Inr (Some \<lparr>executable = False, owner = PublicKey [2], lamports = 918720,
                      data = alloc CALCULATOR_SIZE\<rparr>)
   \<and> fst (checkProgram localCluster funded) = Inr ()
   \<and> fst (checkProgram localCluster (snd (checkProgram localCluster funded))) = Inr ()
   \<and> submitted (snd (checkProgram localCluster (snd (checkProgram localCluster funded)))) =
        [[CreateAccountWithSeed (PublicKey [1]) (PublicKey [1]) CALCULATOR_SEED calculatorAddress
            918720 CALCULATOR_SIZE (PublicKey [2])]]
   \<and> world (snd (checkProgram localCluster (snd (checkProgram localCluster funded))))
        = holding [0, 0, 0, 0]
   \<and> getAccountInfo localCluster (world (ready [7, 0, 0, 0])) (Some calculatorAddress)
        = Inr (Some \<lparr>executable = False, owner = PublicKey [2], lamports = 918720,
                      data = [7, 0, 0, 0]\<rparr>)
   \<and> fst (checkProgram localCluster (ready [7, 0, 0, 0])) = Inr ()
   \<and> submitted (snd (checkProgram localCluster (ready [7, 0, 0, 0]))) = []
   \<and> world (snd (checkProgram localCluster (ready [7, 0, 0, 0]))) = holding [7, 0, 0, 0]"
  using checkProgram_idempotent [where s = funded and env = localCluster
      and url = "''http://127.0.0.1:8899''" and p = "\<lparr>publicKey = PublicKey [1], secretKey = [1]\<rparr>"
      and programKeypair = "\<lparr>publicKey = PublicKey [2], secretKey = [2]\<rparr>"
      and programInfo = "\<lparr>executable = True, owner = systemProgram, lamports = 1, data = []\<rparr>"
      and programInfo' = "\<lparr>executable = True, owner = systemProgram, lamports = 1, data = []\<rparr>"
      and address = calculatorAddress and rent = 918720 and sig = "''signature''"
      and ?w1.0 = "holding [0, 0, 0, 0]"
      and created = "\<lparr>executable = False, owner = PublicKey [2], lamports = 918720,
                       data = alloc CALCULATOR_SIZE\<rparr>"]
    checkProgram_idempotent [where s = "ready [7, 0, 0, 0]" and env = localCluster
      and url = "''http://127.0.0.1:8899''" and p = "\<lparr>publicKey = PublicKey [1], secretKey = [1]\<rparr>"
      and programKeypair = "\<lparr>publicKey = PublicKey [2], secretKey = [2]\<rparr>"
      and programInfo = "\<lparr>executable = True, owner = systemProgram, lamports = 1, data = []\<rparr>"
      and address = calculatorAddress
      and account = "\<lparr>executable = False, owner = PublicKey [2], lamports = 918720,
                       data = [7, 0, 0, 0]\<rparr>"]
  by (simp add: cluster_defs CALCULATOR_SIZE_4 alloc_def eval_nat_numeral)

end
